theory Spec2Isabelle
  imports Complex_Main
begin

section \<open>Python strings\<close>

text \<open>
  Strings are \<^typ>\<open>string\<close>, one \<^typ>\<open>char\<close> per character; the formulas and
  addresses handled here are ASCII. \<open>isspace\<close> is Python's \<open>str.isspace\<close> on the ASCII
  range: space, tab, line feed, vertical tab, form feed, carriage return and the four
  separators \<open>0x1c .. 0x1f\<close>.
\<close>

definition whitespace :: "char list" where
  "whitespace = [CHR '' '', CHR 0x09, CHR 0x0A, CHR 0x0B, CHR 0x0C, CHR 0x0D,
                 CHR 0x1C, CHR 0x1D, CHR 0x1E, CHR 0x1F]"

definition isspace :: "char \<Rightarrow> bool" where
  "isspace c = (c \<in> set whitespace)"

definition strip :: "string \<Rightarrow> string" where
  "strip s = rev (dropWhile isspace (rev (dropWhile isspace s)))"

section \<open>The dependency graph (core/graph.py)\<close>

text \<open>
  A \<open>networkx.DiGraph\<close> whose nodes carry no attributes: the nodes and the edges, each
  in insertion order, as the library's dictionaries keep them. \<open>add_node\<close> and
  \<open>add_edge\<close> do nothing for a node or an edge that is already there; \<open>add_edge\<close>
  creates missing end points, the source first.
\<close>

type_synonym node = string

record graph =
  nodes :: "node list"
  edges :: "(node \<times> node) list"

definition empty_graph :: graph where
  "empty_graph = \<lparr>nodes = [], edges = []\<rparr>"

definition has_node :: "graph \<Rightarrow> node \<Rightarrow> bool" where
  "has_node g n = (n \<in> set (nodes g))"

definition add_node :: "graph \<Rightarrow> node \<Rightarrow> graph" where
  "add_node g n = (if n \<in> set (nodes g) then g else g\<lparr>nodes := nodes g @ [n]\<rparr>)"

definition add_edge :: "graph \<Rightarrow> node \<Rightarrow> node \<Rightarrow> graph" where
  "add_edge g u v =
     (let g1 = add_node (add_node g u) v
      in if (u, v) \<in> set (edges g1) then g1 else g1\<lparr>edges := edges g1 @ [(u, v)]\<rparr>)"

datatype error =
    TypeError string
  | NetworkXError string
  | AttributeError string
  | ValueError string

text \<open>\<open>g.successors(n)\<close>: the targets of the edges out of \<open>n\<close>, in insertion order;
  the library raises \<open>NetworkXError\<close> for a node that is not in the graph.\<close>

definition successors :: "graph \<Rightarrow> node \<Rightarrow> error + node list" where
  "successors g n =
     (if has_node g n then Inr (map snd (filter (\<lambda>e. fst e = n) (edges g)))
      else Inl (NetworkXError n))"

definition node_id :: "string \<Rightarrow> string \<Rightarrow> node" where
  "node_id sheet addr = sheet @ ''!'' @ addr"

subsection \<open>Reference tokens\<close>

text \<open>
  \<open>RefToken\<close> of core/references.py, and the dictionary form of a token that the graph
  builder also accepts (every key optional).
\<close>

record RefToken =
  raw :: string
  sheet :: "string option"
  kind :: string
  symbolic :: bool

record ref_dict =
  d_raw :: "string option"
  d_ref :: "string option"
  d_sheet :: "string option"
  d_kind :: "string option"
  d_symbolic :: "bool option"
  d_is_symbolic :: "bool option"

datatype ref = RefObj RefToken | RefDict ref_dict

record symbolic_edge =
  se_dependent :: node
  se_ref :: node
  se_raw :: string
  se_sheet :: string
  se_kind :: string

text \<open>Python's \<open>x or y\<close> on optional strings: \<open>x\<close> when it is a non-empty string.\<close>

definition str_or :: "string option \<Rightarrow> string option \<Rightarrow> string option" where
  "str_or x y = (case x of Some (c # cs) \<Rightarrow> x | _ \<Rightarrow> y)"

definition truthy_str :: "string option \<Rightarrow> bool" where
  "truthy_str x = (case x of Some (c # cs) \<Rightarrow> True | _ \<Rightarrow> False)"

definition truthy_bool :: "bool option \<Rightarrow> bool" where
  "truthy_bool x = (case x of Some True \<Rightarrow> True | _ \<Rightarrow> False)"

text \<open>Lines 58 to 66 of \<open>build_dependency_graph\<close>: the fields read off one token, as
  \<open>(raw, sheet, kind, symbolic)\<close>.\<close>

fun ref_fields :: "ref \<Rightarrow> string option \<times> string option \<times> string option \<times> bool option" where
  "ref_fields (RefObj t) = (Some (raw t), sheet t, Some (kind t), Some (symbolic t))"
| "ref_fields (RefDict d) =
     (str_or (d_raw d) (d_ref d), d_sheet d, d_kind d,
      Some (truthy_bool (d_symbolic d) \<or> truthy_bool (d_is_symbolic d)))"

text \<open>The body of the loop over \<open>refs\<close> (lines 56 to 80), on the graph and the sink of
  symbolic edges (\<open>None\<close> when the caller passed no list).\<close>

definition add_ref ::
  "string \<Rightarrow> node \<Rightarrow> ref \<Rightarrow> graph \<times> symbolic_edge list option
     \<Rightarrow> graph \<times> symbolic_edge list option" where
  "add_ref sheet_name dep r st =
     (case ref_fields r of (raw0, sheet0, kind0, symbolic0) \<Rightarrow>
        let raw1 = strip (case raw0 of None \<Rightarrow> [] | Some s \<Rightarrow> s)
        in if raw1 = [] then st
           else
             let symb = (case symbolic0 of None \<Rightarrow> False | Some b \<Rightarrow> b);
                 ref_sheet = (if truthy_str sheet0 then the sheet0 else sheet_name);
                 ref_node = node_id ref_sheet raw1;
                 g' = add_edge (fst st) dep ref_node
             in (g',
                 (case snd st of
                    Some sink \<Rightarrow>
                      if symb
                      then Some (sink @ [\<lparr>se_dependent = dep, se_ref = ref_node, se_raw = raw1,
                                          se_sheet = ref_sheet,
                                          se_kind = (if truthy_str kind0 then the kind0
                                                     else ''symbolic'')\<rparr>])
                      else Some sink
                  | None \<Rightarrow> None)))"

text \<open>
  The incremental call style of \<open>build_dependency_graph\<close> (lines 42 to 82). Each of the
  arguments is \<open>None\<close> when the caller left it out or passed Python's \<open>None\<close>. The
  result is the outcome (\<open>None\<close> for a normal return, which returns nothing) with the
  graph object and the sink as they are after the call.
\<close>

definition build_dependency_graph ::
  "string option \<Rightarrow> string option \<Rightarrow> ref list option \<Rightarrow> graph option
     \<Rightarrow> symbolic_edge list option
     \<Rightarrow> error option \<times> graph option \<times> symbolic_edge list option" where
  "build_dependency_graph sheet_name cell_addr refs g symbolic_edges =
     (case (sheet_name, cell_addr, g, refs) of
        (Some sn, Some ca, Some g0, Some rs) \<Rightarrow>
          let dep = node_id sn ca;
              g1 = (if \<not> has_node g0 dep then add_node g0 dep else g0);
              st = foldl (\<lambda>st r. add_ref sn dep r st) (g1, symbolic_edges) rs
          in (None, Some (fst st), snd st)
      | _ \<Rightarrow>
          (Some (TypeError
             ''build_dependency_graph: missing required args (sheet_name, cell_addr, refs, g)''),
           g, symbolic_edges))"

subsection \<open>Cycle detection\<close>

text \<open>
  \<open>networkx.simple_cycles\<close> is a generator of the library: it yields cycles one at a
  time and may fail with an exception. What the caller sees of it is the cycles it
  would yield and how it ends; \<open>detect_cycles\<close> takes it as a parameter.
\<close>

record exn =
  exn_type :: string
  exn_msg :: string

datatype 'a generator = Stop | Raise exn | Yield 'a "'a generator"

record cycle_entry =
  entry_type :: string
  cells :: "node list"
  details :: "string option"

definition cycle_of :: "node list \<Rightarrow> cycle_entry" where
  "cycle_of cyc = \<lparr>entry_type = ''cycle'', cells = cyc, details = None\<rparr>"

definition error_of :: "exn \<Rightarrow> cycle_entry" where
  "error_of e = \<lparr>entry_type = ''error'', cells = [],
                 details = Some (exn_type e @ '': '' @ exn_msg e)\<rparr>"

text \<open>The \<open>for\<close> loop inside the \<open>try\<close>: \<open>Inl\<close> when the generator raised, with the
  list as it was then.\<close>

fun collect_cycles ::
  "node list generator \<Rightarrow> int \<Rightarrow> cycle_entry list \<Rightarrow> (exn \<times> cycle_entry list) + cycle_entry list" where
  "collect_cycles Stop limit out = Inr out"
| "collect_cycles (Raise e) limit out = Inl (e, out)"
| "collect_cycles (Yield cyc rest) limit out =
     (let out' = out @ [cycle_of cyc]
      in if int (length out') \<ge> limit then Inr out' else collect_cycles rest limit out')"

definition detect_cycles ::
  "(graph \<Rightarrow> node list generator) \<Rightarrow> graph \<Rightarrow> int \<Rightarrow> cycle_entry list" where
  "detect_cycles simple_cycles g limit =
     (case collect_cycles (simple_cycles g) limit [] of
        Inr out \<Rightarrow> out
      | Inl (e, out) \<Rightarrow> out @ [error_of e])"

subsection \<open>Reading results\<close>

text \<open>The graph object and the sink after a call.\<close>

definition graph_after ::
  "error option \<times> graph option \<times> symbolic_edge list option \<Rightarrow> graph option" where
  "graph_after r = fst (snd r)"

definition sink_after ::
  "error option \<times> graph option \<times> symbolic_edge list option \<Rightarrow> symbolic_edge list option" where
  "sink_after r = snd (snd r)"

text \<open>The node a token adds an edge to: none for a token whose \<open>raw\<close> is empty.\<close>

definition ref_target :: "string \<Rightarrow> ref \<Rightarrow> node option" where
  "ref_target sheet_name r =
     (case ref_fields r of (raw0, sheet0, kind0, symbolic0) \<Rightarrow>
        let raw1 = strip (case raw0 of None \<Rightarrow> [] | Some s \<Rightarrow> s)
        in if raw1 = [] then None
           else Some (node_id (if truthy_str sheet0 then the sheet0 else sheet_name) raw1))"

text \<open>What a generator would yield if it were run to its end, and the exception it
  would end with.\<close>

fun gen_yields :: "'a generator \<Rightarrow> 'a list" where
  "gen_yields Stop = []"
| "gen_yields (Raise e) = []"
| "gen_yields (Yield x rest) = x # gen_yields rest"

fun gen_raises :: "'a generator \<Rightarrow> exn option" where
  "gen_raises Stop = None"
| "gen_raises (Raise e) = Some e"
| "gen_raises (Yield x rest) = gen_raises rest"

text \<open>An edge that is in the graph with both its end points.\<close>

definition linked :: "graph \<Rightarrow> node \<Rightarrow> node \<Rightarrow> bool" where
  "linked g u v = (u \<in> set (nodes g) \<and> v \<in> set (nodes g) \<and> (u, v) \<in> set (edges g))"

section \<open>Properties of the graph builder\<close>

lemma add_node_present: "n \<in> set (nodes g) \<Longrightarrow> add_node g n = g"
  by (simp add: add_node_def)

lemma nodes_add_node: "set (nodes (add_node g n)) = insert n (set (nodes g))"
  by (auto simp: add_node_def)

lemma edges_add_node: "edges (add_node g n) = edges g"
  by (simp add: add_node_def)

lemma add_edge_present:
  "u \<in> set (nodes g) \<Longrightarrow> v \<in> set (nodes g) \<Longrightarrow> (u, v) \<in> set (edges g) \<Longrightarrow> add_edge g u v = g"
  by (simp add: add_edge_def add_node_present)

lemma nodes_add_edge: "set (nodes (add_edge g u v)) = insert u (insert v (set (nodes g)))"
  by (auto simp: add_edge_def Let_def nodes_add_node)

lemma edges_add_edge: "set (edges (add_edge g u v)) = insert (u, v) (set (edges g))"
  by (auto simp: add_edge_def Let_def edges_add_node)

lemma fst_add_ref:
  "fst (add_ref sn dep r st) =
     (case ref_target sn r of None \<Rightarrow> fst st | Some n \<Rightarrow> add_edge (fst st) dep n)"
  by (simp add: add_ref_def ref_target_def Let_def split: prod.splits)

lemma linked_add_edge: "linked (add_edge g u v) u v"
  by (simp add: linked_def nodes_add_edge edges_add_edge)

lemma linked_mono_edge: "linked g u v \<Longrightarrow> linked (add_edge g a b) u v"
  by (simp add: linked_def nodes_add_edge edges_add_edge)

lemma linked_mono_ref: "linked (fst st) u v \<Longrightarrow> linked (fst (add_ref sn dep r st)) u v"
  by (simp add: fst_add_ref linked_mono_edge split: option.splits)

lemma linked_mono_refs:
  "linked (fst st) u v \<Longrightarrow> linked (fst (foldl (\<lambda>st r. add_ref sn dep r st) st rs)) u v"
  by (induction rs arbitrary: st) (simp_all add: linked_mono_ref)

lemma refs_linked:
  "r \<in> set rs \<Longrightarrow> ref_target sn r = Some n \<Longrightarrow>
   linked (fst (foldl (\<lambda>st r. add_ref sn dep r st) st rs)) dep n"
proof (induction rs arbitrary: st)
  case Nil
  then show ?case by simp
next
  case (Cons a rs)
  show ?case
  proof (cases "r = a")
    case True
    have "linked (fst (add_ref sn dep a st)) dep n"
      using Cons.prems(2) True by (simp add: fst_add_ref linked_add_edge)
    then show ?thesis by (simp add: linked_mono_refs)
  next
    case False
    then have "r \<in> set rs" using Cons.prems(1) by simp
    then show ?thesis using Cons.IH Cons.prems(2) by simp
  qed
qed

lemma refs_noop:
  "(\<And>r n. r \<in> set rs \<Longrightarrow> ref_target sn r = Some n \<Longrightarrow> linked (fst st) dep n) \<Longrightarrow>
   fst (foldl (\<lambda>st r. add_ref sn dep r st) st rs) = fst st"
proof (induction rs arbitrary: st)
  case Nil
  then show ?case by simp
next
  case (Cons a rs)
  have a: "fst (add_ref sn dep a st) = fst st"
  proof (cases "ref_target sn a")
    case None
    then show ?thesis by (simp add: fst_add_ref)
  next
    case (Some n)
    then have "linked (fst st) dep n" using Cons.prems [of a n] by simp
    then show ?thesis using Some by (simp add: fst_add_ref linked_def add_edge_present)
  qed
  have "fst (foldl (\<lambda>st r. add_ref sn dep r st) (add_ref sn dep a st) rs) = fst (add_ref sn dep a st)"
  proof (rule Cons.IH)
    fix r n assume "r \<in> set rs" "ref_target sn r = Some n"
    then have "linked (fst st) dep n" using Cons.prems [of r n] by simp
    then show "linked (fst (add_ref sn dep a st)) dep n" by (simp add: a)
  qed
  then show ?case using a by simp
qed

lemma dep_kept:
  "dep \<in> set (nodes (fst st)) \<Longrightarrow> dep \<in> set (nodes (fst (foldl (\<lambda>st r. add_ref sn dep r st) st rs)))"
  by (induction rs arbitrary: st) (simp_all add: fst_add_ref nodes_add_edge split: option.splits)

text \<open>
  Claim C8. Calling the incremental \<open>build_dependency_graph\<close> a second time with the
  same arguments, on the graph and the sink as the first call left them, leaves the
  graph (its nodes and its edges) exactly as it was after the first call.
\<close>

theorem build_dependency_graph_idempotent:
  "graph_after (build_dependency_graph sheet_name cell_addr refs
      (graph_after (build_dependency_graph sheet_name cell_addr refs g sink))
      (sink_after (build_dependency_graph sheet_name cell_addr refs g sink)))
   = graph_after (build_dependency_graph sheet_name cell_addr refs g sink)"
proof (cases "\<exists>sn ca g0 rs. sheet_name = Some sn \<and> cell_addr = Some ca \<and> g = Some g0 \<and> refs = Some rs")
  case False
  then show ?thesis
    by (auto simp: build_dependency_graph_def graph_after_def sink_after_def split: option.splits)
next
  case True
  then obtain sn ca g0 rs where args: "sheet_name = Some sn" "cell_addr = Some ca" "g = Some g0" "refs = Some rs"
    by blast
  define dep where "dep = node_id sn ca"
  define g1 where "g1 = (if \<not> has_node g0 dep then add_node g0 dep else g0)"
  define st1 where "st1 = foldl (\<lambda>st r. add_ref sn dep r st) (g1, sink) rs"
  have first: "build_dependency_graph sheet_name cell_addr refs g sink = (None, Some (fst st1), snd st1)"
    by (simp add: build_dependency_graph_def args dep_def g1_def st1_def Let_def)
  have "dep \<in> set (nodes g1)"
    by (simp add: g1_def has_node_def nodes_add_node)
  then have dep_in: "dep \<in> set (nodes (fst st1))"
    unfolding st1_def by (intro dep_kept) simp
  then have g1': "(if \<not> has_node (fst st1) dep then add_node (fst st1) dep else fst st1) = fst st1"
    by (simp add: has_node_def)
  have "fst (foldl (\<lambda>st r. add_ref sn dep r st) (fst st1, snd st1) rs) = fst (fst st1, snd st1)"
  proof (rule refs_noop)
    fix r n assume "r \<in> set rs" "ref_target sn r = Some n"
    then show "linked (fst (fst st1, snd st1)) dep n"
      unfolding st1_def by (simp add: refs_linked)
  qed
  then have second: "build_dependency_graph sheet_name cell_addr refs (Some (fst st1)) (snd st1)
      = (None, Some (fst st1), snd (foldl (\<lambda>st r. add_ref sn dep r st) (fst st1, snd st1) rs))"
    using g1' by (simp add: build_dependency_graph_def args dep_def [symmetric] Let_def)
  show ?thesis
    by (simp add: first graph_after_def sink_after_def second)
qed

text \<open>
  Claim C9. When the sheet name, the cell address, the tokens or the graph is missing,
  the incremental \<open>build_dependency_graph\<close> raises \<open>TypeError\<close> and the graph (and the
  sink) are what they were before the call.
\<close>

theorem build_dependency_graph_missing:
  "sheet_name = None \<or> cell_addr = None \<or> refs = None \<or> g = None \<Longrightarrow>
   build_dependency_graph sheet_name cell_addr refs g sink =
     (Some (TypeError ''build_dependency_graph: missing required args (sheet_name, cell_addr, refs, g)''),
      g, sink)"
  by (auto simp: build_dependency_graph_def split: option.splits)

theorem build_dependency_graph_missing_witness:
  "build_dependency_graph None (Some ''A1'') (Some []) (Some empty_graph) (Some []) =
     (Some (TypeError ''build_dependency_graph: missing required args (sheet_name, cell_addr, refs, g)''),
      Some empty_graph, Some [])"
  using build_dependency_graph_missing [of None "Some ''A1''" "Some []" "Some empty_graph" "Some []"]
  by simp

section \<open>Downstream reach (detectors/impact.py)\<close>

text \<open>The inner \<open>for\<close> loop of the traversal: every successor that is not yet visited is
  added to \<open>visited\<close> and appended to the queue.\<close>

fun visit_successors :: "node list \<Rightarrow> node list \<times> node list \<Rightarrow> node list \<times> node list" where
  "visit_successors [] (visited, q) = (visited, q)"
| "visit_successors (nxt # rest) (visited, q) =
     (if nxt \<notin> set visited then visit_successors rest (visited @ [nxt], q @ [nxt])
      else visit_successors rest (visited, q))"

lemma visit_successors_sets:
  "visit_successors ss (v, q) = (v', q') \<Longrightarrow> set v \<subseteq> set v' \<and> set v' \<subseteq> set v \<union> set ss"
proof (induction ss arbitrary: v q)
  case Nil
  then show ?case by simp
next
  case (Cons a ss)
  show ?case
  proof (cases "a \<in> set v")
    case True
    then have "visit_successors ss (v, q) = (v', q')" using Cons.prems by simp
    from Cons.IH [OF this] show ?thesis by auto
  next
    case False
    then have "visit_successors ss (v @ [a], q @ [a]) = (v', q')" using Cons.prems by simp
    from Cons.IH [OF this] show ?thesis by auto
  qed
qed

lemma visit_successors_same:
  "visit_successors ss (v, q) = (v', q') \<Longrightarrow> set v' = set v \<Longrightarrow> v' = v \<and> q' = q"
proof (induction ss arbitrary: v q)
  case Nil
  then show ?case by simp
next
  case (Cons a ss)
  show ?case
  proof (cases "a \<in> set v")
    case True
    then have "visit_successors ss (v, q) = (v', q')" using Cons.prems(1) by simp
    from Cons.IH [OF this Cons.prems(2)] show ?thesis .
  next
    case False
    then have "visit_successors ss (v @ [a], q @ [a]) = (v', q')" using Cons.prems(1) by simp
    then have "set (v @ [a]) \<subseteq> set v'" using visit_successors_sets by blast
    then have "a \<in> set v'" by simp
    then show ?thesis using False Cons.prems(2) by simp
  qed
qed

lemma visit_successors_cases:
  "visit_successors ss (v, q) = (v', q') \<Longrightarrow>
   (v' = v \<and> q' = q) \<or> (set v \<subset> set v' \<and> set v' \<subseteq> set v \<union> set ss)"
  using visit_successors_sets [of ss v q v' q'] visit_successors_same [of ss v q v' q']
  by blast

lemma successors_targets: "successors g n = Inr ss \<Longrightarrow> set ss \<subseteq> snd ` set (edges g)"
  by (auto simp: successors_def split: if_splits)

text \<open>The \<open>while\<close> loop: it runs while the queue is not empty and fewer than
  \<open>max_nodes\<close> nodes are visited. Each round either visits a new target of an edge or
  shortens the queue, so the loop ends.\<close>

function bfs_loop :: "graph \<Rightarrow> int \<Rightarrow> node list \<Rightarrow> node list \<Rightarrow> error + node list" where
  "bfs_loop g max_nodes visited q =
     (if q \<noteq> [] \<and> int (length visited) < max_nodes
      then (case successors g (hd q) of
              Inl e \<Rightarrow> Inl e
            | Inr ss \<Rightarrow>
                (case visit_successors ss (visited, tl q) of
                   (visited', q') \<Rightarrow> bfs_loop g max_nodes visited' q'))
      else Inr visited)"
  by pat_completeness auto
termination
proof (relation "inv_image (less_than <*lex*> less_than)
         (\<lambda>(g, m, v, q). (card (snd ` set (edges g) - set v), length q))")
  show "wf (inv_image (less_than <*lex*> less_than)
         (\<lambda>(g, m, v, q). (card (snd ` set (edges g) - set v), length q)))"
    by (intro wf_inv_image wf_lex_prod wf_less_than)
next
  fix g :: graph and max_nodes :: int and visited q ss visited' q' :: "node list"
  assume a: "q \<noteq> [] \<and> int (length visited) < max_nodes"
    and s: "successors g (hd q) = Inr ss"
    and x: "(visited', q') = visit_successors ss (visited, tl q)"
  have v: "visit_successors ss (visited, tl q) = (visited', q')" using x by simp
  let ?T = "snd ` set (edges g)"
  from visit_successors_cases [OF v]
  show "((g, max_nodes, visited', q'), (g, max_nodes, visited, q))
        \<in> inv_image (less_than <*lex*> less_than)
         (\<lambda>(g, m, v, q). (card (snd ` set (edges g) - set v), length q))"
  proof
    assume "visited' = visited \<and> q' = tl q"
    then show ?thesis using a by simp
  next
    assume b: "set visited \<subset> set visited' \<and> set visited' \<subseteq> set visited \<union> set ss"
    then obtain y where y: "y \<in> set visited'" "y \<notin> set visited" by blast
    then have "y \<in> ?T" using b successors_targets [OF s] by blast
    then have "?T - set visited' \<subset> ?T - set visited" using y b by blast
    then have "card (?T - set visited') < card (?T - set visited)"
      by (intro psubset_card_mono) simp_all
    then show ?thesis by simp
  qed
qed

text \<open>The first loop (lines 17 to 19): every successor of the start is added to the set
  \<open>visited\<close> and appended to the queue.\<close>

fun seed_successors :: "node list \<Rightarrow> node list \<times> node list \<Rightarrow> node list \<times> node list" where
  "seed_successors [] (visited, q) = (visited, q)"
| "seed_successors (nxt # rest) (visited, q) =
     seed_successors rest (if nxt \<in> set visited then visited else visited @ [nxt], q @ [nxt])"

text \<open>The set \<open>visited\<close> at the \<open>return\<close>, in the order the nodes were added;
  \<open>downstream_reach\<close> returns its size.\<close>

definition downstream_visited :: "graph \<Rightarrow> node \<Rightarrow> int \<Rightarrow> error + node list" where
  "downstream_visited g start max_nodes =
     (case successors g start of
        Inl e \<Rightarrow> Inl e
      | Inr ss \<Rightarrow>
          (case seed_successors ss ([], []) of
             (visited, q) \<Rightarrow> bfs_loop g max_nodes visited q))"

definition downstream_reach :: "graph \<Rightarrow> node \<Rightarrow> int \<Rightarrow> error + nat" where
  "downstream_reach g start max_nodes =
     (case downstream_visited g start max_nodes of
        Inl e \<Rightarrow> Inl e
      | Inr visited \<Rightarrow> Inr (length visited))"

subsection \<open>Graphs of small sheets\<close>

text \<open>The token of a bare cell address, one scanned formula cell added to a graph, and
  the graphs of three sheets: the chain in which \<open>B1\<close> is \<open>=A1\<close>, \<open>C1\<close> is \<open>=B1\<close> and
  \<open>D1\<close> is \<open>=C1\<close>; the two cells \<open>A1\<close>, \<open>=B1\<close>, and \<open>B1\<close>, \<open>=A1\<close>; and the one cell
  \<open>A1\<close>, \<open>=A1\<close>.\<close>

definition cell_token :: "string \<Rightarrow> ref" where
  "cell_token a = RefObj \<lparr>raw = a, sheet = None, kind = ''cell'', symbolic = False\<rparr>"

definition add_formula_cell :: "string \<Rightarrow> string \<Rightarrow> ref list \<Rightarrow> graph \<Rightarrow> graph" where
  "add_formula_cell sn ca rs g =
     the (graph_after (build_dependency_graph (Some sn) (Some ca) (Some rs) (Some g) (Some [])))"

definition chain_graph :: graph where
  "chain_graph =
     add_formula_cell ''Sheet1'' ''D1'' [cell_token ''C1'']
       (add_formula_cell ''Sheet1'' ''C1'' [cell_token ''B1'']
         (add_formula_cell ''Sheet1'' ''B1'' [cell_token ''A1''] empty_graph))"

definition two_cycle_graph :: graph where
  "two_cycle_graph =
     add_formula_cell ''Sheet1'' ''B1'' [cell_token ''A1'']
       (add_formula_cell ''Sheet1'' ''A1'' [cell_token ''B1''] empty_graph)"

definition self_loop_graph :: graph where
  "self_loop_graph = add_formula_cell ''Sheet1'' ''A1'' [cell_token ''A1''] empty_graph"

text \<open>An enumeration that yields the given cycles and then stops or raises, whatever
  the graph.\<close>

fun gen_of :: "'a list \<Rightarrow> exn option \<Rightarrow> 'a generator" where
  "gen_of [] None = Stop"
| "gen_of [] (Some e) = Raise e"
| "gen_of (x # xs) ending = Yield x (gen_of xs ending)"


text \<open>The enumeration raises before the loop of \<open>detect_cycles\<close> has stopped at the
  limit.\<close>

definition enumeration_fails :: "'a generator \<Rightarrow> int \<Rightarrow> bool" where
  "enumeration_fails gen limit =
     (gen_raises gen \<noteq> None \<and> length (gen_yields gen) < nat (max 1 limit))"

subsection \<open>The chain and the cycles\<close>

lemma chain_graph_value:
  "chain_graph =
     \<lparr>nodes = [''Sheet1!B1'', ''Sheet1!A1'', ''Sheet1!C1'', ''Sheet1!D1''],
      edges = [(''Sheet1!B1'', ''Sheet1!A1''), (''Sheet1!C1'', ''Sheet1!B1''),
               (''Sheet1!D1'', ''Sheet1!C1'')]\<rparr>"
  by code_simp

text \<open>
  Claim C2. On the chain in which \<open>D1\<close> depends on \<open>C1\<close>, \<open>C1\<close> on \<open>B1\<close> and \<open>B1\<close> on
  \<open>A1\<close>, built by the incremental builder, the claim has the downstream reach of \<open>A1\<close>
  equal to 3 and above every other node's. The code returns 0 for \<open>A1\<close>, which has no
  outgoing edge, and 3 for \<open>D1\<close>: the edges run from the dependent cell to the cell it
  refers to, and the traversal follows them.
\<close>

theorem downstream_reach_chain:
  "downstream_reach chain_graph ''Sheet1!A1'' 200000 = Inr 0 \<and>
   downstream_reach chain_graph ''Sheet1!B1'' 200000 = Inr 1 \<and>
   downstream_reach chain_graph ''Sheet1!C1'' 200000 = Inr 2 \<and>
   downstream_reach chain_graph ''Sheet1!D1'' 200000 = Inr 3"
  by code_simp

text \<open>
  Claim C5. The claim has the start node never counted, also when it lies on a cycle.
  On the two cells that refer to each other the traversal from \<open>A1\<close> visits \<open>B1\<close> and
  then \<open>A1\<close> itself, and returns 2; on the cell that refers to itself it returns 1.
\<close>

theorem downstream_reach_counts_start_on_cycle:
  "downstream_visited two_cycle_graph ''Sheet1!A1'' 200000 = Inr [''Sheet1!B1'', ''Sheet1!A1''] \<and>
   downstream_reach two_cycle_graph ''Sheet1!A1'' 200000 = Inr 2 \<and>
   downstream_reach self_loop_graph ''Sheet1!A1'' 200000 = Inr 1"
  by code_simp

section \<open>Properties of the cycle detector\<close>

lemma collect_cycles_char:
  "collect_cycles gen limit out =
     (if nat (max 1 (limit - int (length out))) \<le> length (gen_yields gen)
      then Inr (out @ map cycle_of (take (nat (max 1 (limit - int (length out)))) (gen_yields gen)))
      else (case gen_raises gen of
              None \<Rightarrow> Inr (out @ map cycle_of (gen_yields gen))
            | Some e \<Rightarrow> Inl (e, out @ map cycle_of (gen_yields gen))))"
proof (induction gen arbitrary: out)
  case Stop
  then show ?case by simp
next
  case (Raise e)
  then show ?case by simp
next
  case (Yield cyc rest)
  show ?case
  proof (cases "int (length out) + 1 \<ge> limit")
    case True
    then have "nat (max 1 (limit - int (length out))) = 1" by simp
    then show ?thesis using True by simp
  next
    case False
    then have n: "nat (max 1 (limit - int (length out))) = Suc (nat (max 1 (limit - int (length (out @ [cycle_of cyc])))))"
      by simp
    show ?thesis
      using False unfolding n
      by (simp add: Yield.IH Let_def split: option.splits)
  qed
qed

lemma detect_cycles_char:
  "detect_cycles sc g limit =
     (if nat (max 1 limit) \<le> length (gen_yields (sc g))
      then map cycle_of (take (nat (max 1 limit)) (gen_yields (sc g)))
      else (case gen_raises (sc g) of
              None \<Rightarrow> map cycle_of (gen_yields (sc g))
            | Some e \<Rightarrow> map cycle_of (gen_yields (sc g)) @ [error_of e]))"
  by (simp add: detect_cycles_def collect_cycles_char split: option.splits)


lemma gen_of_raises: "gen_raises (gen_of xs ending) = ending"
  by (induction xs ending rule: gen_of.induct) simp_all




text \<open>
  Claim C10. \<open>detect_cycles\<close> returns a list in every case: the exception of the
  enumeration is caught. When the enumeration raises before the loop has stopped at the
  limit, the list is the cycles yielded until then followed by one entry of type \<open>error\<close>
  with no cells; otherwise it is cycles only.
\<close>

theorem detect_cycles_total:
  "detect_cycles sc g limit =
     (if enumeration_fails (sc g) limit
      then map cycle_of (gen_yields (sc g)) @
           [\<lparr>entry_type = ''error'', cells = [],
             details = Some (exn_type (the (gen_raises (sc g))) @ '': '' @
                             exn_msg (the (gen_raises (sc g))))\<rparr>]
      else map cycle_of (take (nat (max 1 limit)) (gen_yields (sc g))))"
  by (auto simp: detect_cycles_char enumeration_fails_def error_of_def split: option.splits)

section \<open>Risk tiering (cli/main.py)\<close>

text \<open>
  A value of the configuration tree, as the YAML loader gives it. A float is kept by
  its exact value: the weighted score below is computed in exact rational arithmetic
  where the program uses 64-bit floats. A mapping is the list of its items (string keys).
\<close>

datatype pyval =
    PNone
  | PBool bool
  | PInt int
  | PFloat rat
  | PStr string
  | PList "pyval list"
  | PDict "(string \<times> pyval) list"

text \<open>Python's \<open>bool(x)\<close> and \<open>x or y\<close>.\<close>

fun truthy :: "pyval \<Rightarrow> bool" where
  "truthy PNone = False"
| "truthy (PBool b) = b"
| "truthy (PInt n) = (n \<noteq> 0)"
| "truthy (PFloat r) = (r \<noteq> 0)"
| "truthy (PStr s) = (s \<noteq> [])"
| "truthy (PList xs) = (xs \<noteq> [])"
| "truthy (PDict kvs) = (kvs \<noteq> [])"

definition py_or :: "pyval \<Rightarrow> pyval \<Rightarrow> pyval" where
  "py_or x y = (if truthy x then x else y)"

text \<open>\<open>s.split(c)\<close>, and \<open>_cfg_get\<close>: the value at a dotted path, or the default when the
  path is empty, a key is missing or a value on the way is not a mapping.\<close>

fun split_on :: "char \<Rightarrow> string \<Rightarrow> string list" where
  "split_on c [] = [[]]"
| "split_on c (x # xs) =
     (if x = c then [] # split_on c xs
      else (case split_on c xs of w # ws \<Rightarrow> (x # w) # ws | [] \<Rightarrow> [[x]]))"

fun cfg_walk :: "pyval \<Rightarrow> string list \<Rightarrow> pyval option" where
  "cfg_walk cur [] = Some cur"
| "cfg_walk (PDict kvs) (key # keys) =
     (case map_of kvs key of None \<Rightarrow> None | Some v \<Rightarrow> cfg_walk v keys)"
| "cfg_walk cur (key # keys) = None"

definition cfg_get :: "pyval \<Rightarrow> string \<Rightarrow> pyval \<Rightarrow> pyval" where
  "cfg_get cfg path dflt =
     (if path = [] then dflt
      else (case cfg_walk cfg (split_on CHR ''.'' path) of None \<Rightarrow> dflt | Some v \<Rightarrow> v))"

definition dict_get :: "(string \<times> pyval) list \<Rightarrow> string \<Rightarrow> pyval \<Rightarrow> pyval" where
  "dict_get kvs key dflt = (case map_of kvs key of None \<Rightarrow> dflt | Some v \<Rightarrow> v)"

subsection \<open>Numbers and their text\<close>

text \<open>
  \<open>str(i)\<close> of an integer, and \<open>float(s)\<close> of a decimal literal: an optional sign, digits
  with an optional fraction (or a fraction alone), an optional exponent. \<open>parse_float\<close>
  gives the exact value of the literal, and \<open>None\<close> where the text is not of that form
  (Python's \<open>inf\<close>, \<open>nan\<close> and digit separators are not covered).
\<close>

definition digit_chars :: "char list" where
  "digit_chars = ''0123456789''"

definition isdigit :: "char \<Rightarrow> bool" where
  "isdigit c = (c \<in> set digit_chars)"

definition digit_value :: "char \<Rightarrow> nat" where
  "digit_value c =
     (case map_of [(CHR ''0'', 0::nat), (CHR ''1'', 1), (CHR ''2'', 2), (CHR ''3'', 3),
                   (CHR ''4'', 4), (CHR ''5'', 5), (CHR ''6'', 6), (CHR ''7'', 7),
                   (CHR ''8'', 8), (CHR ''9'', 9)] c of
        Some d \<Rightarrow> d | None \<Rightarrow> 0)"

definition nat_of_digits :: "string \<Rightarrow> nat" where
  "nat_of_digits ds = foldl (\<lambda>n c. 10 * n + digit_value c) 0 ds"

fun str_of_nat :: "nat \<Rightarrow> string" where
  "str_of_nat n =
     (if n < 10 then [digit_chars ! n] else str_of_nat (n div 10) @ [digit_chars ! (n mod 10)])"

definition str_of_int :: "int \<Rightarrow> string" where
  "str_of_int i = (if i < 0 then CHR ''-'' # str_of_nat (nat (- i)) else str_of_nat (nat i))"

definition split_sign :: "string \<Rightarrow> bool \<times> string" where
  "split_sign s =
     (case s of
        c # r \<Rightarrow> if c = CHR ''-'' then (True, r) else if c = CHR ''+'' then (False, r) else (False, s)
      | [] \<Rightarrow> (False, s))"

definition scale10 :: "rat \<Rightarrow> int \<Rightarrow> rat" where
  "scale10 x e = (if 0 \<le> e then x * 10 ^ nat e else x / 10 ^ nat (- e))"

definition parse_exponent :: "string \<Rightarrow> int option" where
  "parse_exponent s =
     (case s of
        [] \<Rightarrow> Some 0
      | c # r \<Rightarrow>
          if c = CHR ''e'' \<or> c = CHR ''E''
          then (case split_sign r of
                  (neg, ds) \<Rightarrow>
                    if ds \<noteq> [] \<and> list_all isdigit ds
                    then Some (if neg then - int (nat_of_digits ds) else int (nat_of_digits ds))
                    else None)
          else None)"

definition parse_float :: "string \<Rightarrow> rat option" where
  "parse_float s =
     (case split_sign s of
        (neg, s1) \<Rightarrow>
          let ip = takeWhile isdigit s1;
              s2 = dropWhile isdigit s1;
              dot = (s2 \<noteq> [] \<and> hd s2 = CHR ''.'');
              fp = (if dot then takeWhile isdigit (tl s2) else []);
              s3 = (if dot then dropWhile isdigit (tl s2) else s2)
          in if ip = [] \<and> fp = [] then None
             else (case parse_exponent s3 of
                     None \<Rightarrow> None
                   | Some e \<Rightarrow>
                       let m = scale10 (of_nat (nat_of_digits (ip @ fp))) (e - int (length fp))
                       in Some (if neg then - m else m)))"

subsection \<open>The tier of a sheet or of the workbook\<close>

text \<open>\<open>float(x)\<close> of a configuration value, and \<open>float(d.get(key, dflt) or dflt)\<close>.\<close>

definition bind_err :: "error + 'a \<Rightarrow> ('a \<Rightarrow> error + 'b) \<Rightarrow> error + 'b" where
  "bind_err m f = (case m of Inl e \<Rightarrow> Inl e | Inr x \<Rightarrow> f x)"

fun to_float :: "pyval \<Rightarrow> error + rat" where
  "to_float PNone = Inl (TypeError ''float() argument must be a string or a real number'')"
| "to_float (PBool b) = Inr (if b then 1 else 0)"
| "to_float (PInt n) = Inr (of_int n)"
| "to_float (PFloat r) = Inr r"
| "to_float (PStr s) =
     (case parse_float (strip s) of
        None \<Rightarrow> Inl (ValueError (''could not convert string to float: '' @ s))
      | Some r \<Rightarrow> Inr r)"
| "to_float (PList xs) = Inl (TypeError ''float() argument must be a string or a real number'')"
| "to_float (PDict kvs) = Inl (TypeError ''float() argument must be a string or a real number'')"

definition float_or :: "(string \<times> pyval) list \<Rightarrow> string \<Rightarrow> int \<Rightarrow> error + rat" where
  "float_or d key dflt = to_float (py_or (dict_get d key (PInt dflt)) (PInt dflt))"

text \<open>\<open>int(signals_map.get(key, 0) or 0)\<close> on a map of integers.\<close>

definition signal :: "(string \<times> int) list \<Rightarrow> string \<Rightarrow> int" where
  "signal signals_map key = (case map_of signals_map key of None \<Rightarrow> 0 | Some n \<Rightarrow> n)"

text \<open>\<open>sep.join(xs)\<close>, and \<open>sorted(xs, key=value, reverse=True)\<close>: descending, items of
  equal value in their original order.\<close>

fun intercalate :: "string \<Rightarrow> string list \<Rightarrow> string" where
  "intercalate sep [] = []"
| "intercalate sep [x] = x"
| "intercalate sep (x # y # ys) = x @ sep @ intercalate sep (y # ys)"

definition insert_desc :: "string \<times> rat \<Rightarrow> (string \<times> rat) list \<Rightarrow> (string \<times> rat) list" where
  "insert_desc x ys =
     takeWhile (\<lambda>y. snd x \<le> snd y) ys @ [x] @ dropWhile (\<lambda>y. snd x \<le> snd y) ys"

definition sort_desc :: "(string \<times> rat) list \<Rightarrow> (string \<times> rat) list" where
  "sort_desc xs = foldl (\<lambda>acc x. insert_desc x acc) [] xs"

definition factor_label :: "string \<Rightarrow> string" where
  "factor_label k =
     (case map_of [(''cycles'', ''circular dependency''),
                   (''top_risk_cells'', ''high-impact drivers''),
                   (''volatile_hits'', ''volatile functions''),
                   (''hardcoded_constants'', ''embedded multipliers''),
                   (''orphan_formulas'', ''orphan formulas''),
                   (''symbolic_refs_per_100'', ''symbolic references'')] k of
        Some l \<Rightarrow> l | None \<Rightarrow> k)"

text \<open>The weighted scoring (lines 490 to 533), taken when \<open>thresholds\<close> and \<open>weights\<close> are
  both mappings.\<close>

definition weighted_tier ::
  "(string \<times> pyval) list \<Rightarrow> (string \<times> pyval) list \<Rightarrow> (string \<times> int) list \<Rightarrow> bool \<Rightarrow> int
     \<Rightarrow> error + string \<times> string" where
  "weighted_tier thresholds weights signals_map has_cycles top_risk_cells =
     (let sym = signal signals_map ''symbolic'';
          vol = signal signals_map ''volatile'';
          consts = signal signals_map ''constants'';
          orphans = signal signals_map ''orphans''
      in bind_err (float_or weights ''cycles'' 0) (\<lambda>w_cyc.
         bind_err (float_or weights ''top_risk_cells'' 0) (\<lambda>w_top.
         bind_err (float_or weights ''volatile_hits'' 0) (\<lambda>w_vol.
         bind_err (float_or weights ''hardcoded_constants'' 0) (\<lambda>w_con.
         bind_err (float_or weights ''orphan_formulas'' 0) (\<lambda>w_orp.
         bind_err (float_or weights ''symbolic_refs_per_100'' 0) (\<lambda>w_sym.
           let contrib =
                 [(''cycles'', w_cyc * (if has_cycles then 1 else 0)),
                  (''top_risk_cells'', w_top * of_int top_risk_cells),
                  (''volatile_hits'', w_vol * of_int vol),
                  (''hardcoded_constants'', w_con * of_int consts),
                  (''orphan_formulas'', w_orp * of_int orphans),
                  (''symbolic_refs_per_100'', w_sym * (of_int sym / 100))];
               score = sum_list (map snd contrib)
           in bind_err (float_or thresholds ''high'' 999999) (\<lambda>high_th.
              bind_err (float_or thresholds ''medium'' 999999) (\<lambda>med_th.
                let tier = (if high_th \<le> score then ''HIGH''
                            else if med_th \<le> score then ''MEDIUM'' else ''LOW'');
                    ranked = sort_desc (filter (\<lambda>kv. 0 < snd kv) contrib);
                    top_factors = map (\<lambda>kv. factor_label (fst kv)) (take 3 ranked)
                in Inr (tier, intercalate ''; '' top_factors))))))))))"

text \<open>The boolean rules (lines 535 to 570).\<close>

definition fallback_tier ::
  "string \<Rightarrow> pyval \<Rightarrow> (string \<times> int) list \<Rightarrow> bool \<Rightarrow> int \<Rightarrow> string \<times> string" where
  "fallback_tier scope scoring_cfg signals_map has_cycles top_risk_cells =
     (let treat_symbolic = truthy (cfg_get scoring_cfg (scope @ ''.symbolic_counts_as_medium'') (PBool True));
          treat_toprisk = truthy (cfg_get scoring_cfg (scope @ ''.top_risk_counts_as_medium'') (PBool True));
          treat_volatile = truthy (cfg_get scoring_cfg (scope @ ''.volatile_counts_as_medium'') (PBool True));
          treat_constants = truthy (cfg_get scoring_cfg (scope @ ''.constants_counts_as_medium'') (PBool True));
          treat_orphans = truthy (cfg_get scoring_cfg (scope @ ''.orphans_counts_as_medium'') (PBool True));
          cycles_make_high = truthy (cfg_get scoring_cfg (scope @ ''.cycles_make_high'') (PBool True));
          sym = signal signals_map ''symbolic'';
          vol = signal signals_map ''volatile'';
          consts = signal signals_map ''constants'';
          orphans = signal signals_map ''orphans'';
          tier = (if cycles_make_high \<and> has_cycles then ''HIGH''
                  else if (treat_toprisk \<and> 0 < top_risk_cells) \<or> (treat_volatile \<and> 0 < vol) \<or>
                          (treat_symbolic \<and> 0 < sym) \<or> (treat_constants \<and> 0 < consts) \<or>
                          (treat_orphans \<and> 0 < orphans)
                  then ''MEDIUM'' else ''LOW'');
          reason_bits =
            (if has_cycles then [''circular dependency''] else []) @
            (if 0 < top_risk_cells then [str_of_int top_risk_cells @ '' high-impact cell(s)''] else []) @
            (if 0 < vol then [str_of_int vol @ '' volatile hit(s)''] else []) @
            (if 0 < sym then [str_of_int sym @ '' symbolic ref(s)''] else []) @
            (if 0 < consts then [str_of_int consts @ '' embedded constant(s)''] else []) @
            (if 0 < orphans then [str_of_int orphans @ '' orphan formula(s)''] else [])
      in (tier, intercalate ''; '' reason_bits))"

text \<open>
  \<open>_compute_risk_tier\<close>. \<open>overrides.get\<close> is called on whatever the configuration has
  under \<open>overrides\<close>, when that is truthy: on a value that is not a mapping it raises
  \<open>AttributeError\<close>.
\<close>

definition compute_risk_tier ::
  "string \<Rightarrow> (string \<times> int) list \<Rightarrow> bool \<Rightarrow> int \<Rightarrow> pyval \<Rightarrow> error + string \<times> string" where
  "compute_risk_tier scope signals_map has_cycles top_risk_cells scoring_cfg =
     (let thresholds = cfg_get scoring_cfg (scope @ ''.thresholds'') PNone;
          weights = cfg_get scoring_cfg (scope @ ''.weights'') PNone;
          overrides = py_or (cfg_get scoring_cfg ''overrides'' (PDict [])) (PDict [])
      in case overrides of
           PDict ov \<Rightarrow>
             if truthy (dict_get ov ''cycle_always_high'' (PBool True)) \<and> has_cycles
             then Inr (''HIGH'', ''circular dependency detected'')
             else (case (thresholds, weights) of
                     (PDict th, PDict ws) \<Rightarrow>
                       weighted_tier th ws signals_map has_cycles top_risk_cells
                   | _ \<Rightarrow>
                       Inr (fallback_tier scope scoring_cfg signals_map has_cycles top_risk_cells))
         | _ \<Rightarrow> Inl (AttributeError ''get''))"


subsection \<open>The cycle override\<close>






text \<open>With the flag off the tier follows the other rules; an \<open>overrides\<close> entry that is
  truthy and not a mapping makes the call fail.\<close>

lemma compute_risk_tier_flag_off:
  "compute_risk_tier ''sheet'' [] True 0
     (PDict [(''sheet'', PDict [(''cycles_make_high'', PBool False)]),
             (''overrides'', PDict [(''cycle_always_high'', PBool False)])]) =
   Inr (''LOW'', ''circular dependency'')"
  by code_simp

lemma compute_risk_tier_overrides_not_mapping:
  "compute_risk_tier ''sheet'' [] True 0 (PDict [(''overrides'', PBool True)]) =
   Inl (AttributeError ''get'')"
  by code_simp

section \<open>Regular expressions\<close>

text \<open>
  The patterns of the program, as terms: a character of a set, a character outside a
  set, a greedy repetition of such a character (at least \<open>lo\<close>, at most \<open>hi\<close> times),
  sequence, ordered alternative, greedy option, a named group, the word boundary
  \<open>\b\<close>, the negative look-behind on one character, and the anchors \<open>^\<close> and \<open>$\<close>.
  \<open>rmatch r s i\<close> lists the ways \<open>r\<close> matches \<open>s\<close> from position \<open>i\<close> in the order
  in which Python's backtracking matcher tries them: the end position, with the spans
  of the groups. The first element is the match \<open>re\<close> reports.
\<close>

datatype rx =
    Cls "char list"
  | NCls "char list"
  | Rep nat "nat option" bool "char list"
  | Seq rx rx
  | Alt rx rx
  | Opt rx
  | Group string rx
  | WordB
  | NotBehind "char list"
  | Bol
  | Eol

type_synonym caps = "(string \<times> nat \<times> nat) list"

definition upper_chars :: "char list" where
  "upper_chars = ''ABCDEFGHIJKLMNOPQRSTUVWXYZ''"

definition lower_chars :: "char list" where
  "lower_chars = ''abcdefghijklmnopqrstuvwxyz''"

definition word_chars :: "char list" where
  "word_chars = upper_chars @ lower_chars @ digit_chars @ ''_''"

definition in_class :: "bool \<Rightarrow> char list \<Rightarrow> char \<Rightarrow> bool" where
  "in_class neg cs c = (if neg then c \<notin> set cs else c \<in> set cs)"

definition is_word_at :: "string \<Rightarrow> nat \<Rightarrow> bool" where
  "is_word_at s i = (i < length s \<and> s ! i \<in> set word_chars)"

definition run_length :: "bool \<Rightarrow> char list \<Rightarrow> nat option \<Rightarrow> string \<Rightarrow> nat \<Rightarrow> nat" where
  "run_length neg cs hi s i =
     (let n = length (takeWhile (in_class neg cs) (drop i s))
      in case hi of None \<Rightarrow> n | Some h \<Rightarrow> min h n)"

fun rmatch :: "rx \<Rightarrow> string \<Rightarrow> nat \<Rightarrow> (nat \<times> caps) list" where
  "rmatch (Cls cs) s i = (if i < length s \<and> s ! i \<in> set cs then [(Suc i, [])] else [])"
| "rmatch (NCls cs) s i = (if i < length s \<and> s ! i \<notin> set cs then [(Suc i, [])] else [])"
| "rmatch (Rep lo hi neg cs) s i =
     map (\<lambda>k. (i + k, [])) (rev [lo ..< Suc (run_length neg cs hi s i)])"
| "rmatch (Seq a b) s i =
     concat (map (\<lambda>(j, c1). map (\<lambda>(k, c2). (k, c1 @ c2)) (rmatch b s j)) (rmatch a s i))"
| "rmatch (Alt a b) s i = rmatch a s i @ rmatch b s i"
| "rmatch (Opt a) s i = rmatch a s i @ [(i, [])]"
| "rmatch (Group name a) s i = map (\<lambda>(e, c). (e, (name, i, e) # c)) (rmatch a s i)"
| "rmatch WordB s i =
     (if (0 < i \<and> is_word_at s (i - 1)) \<noteq> is_word_at s i then [(i, [])] else [])"
| "rmatch (NotBehind cs) s i = (if 0 < i \<and> s ! (i - 1) \<in> set cs then [] else [(i, [])])"
| "rmatch Bol s i = (if i = 0 then [(i, [])] else [])"
| "rmatch Eol s i =
     (if i = length s \<or> (Suc i = length s \<and> s ! i = CHR 0x0A) then [(i, [])] else [])"

text \<open>
  \<open>finditer\<close>: the matches from left to right, each search starting where the match
  before it ended. No pattern of the program matches the empty string; after an empty
  match the search moves on by one character.
\<close>

record rmatch_result =
  m_start :: nat
  m_end :: nat
  m_caps :: caps

function finditer_from :: "rx \<Rightarrow> string \<Rightarrow> nat \<Rightarrow> rmatch_result list" where
  "finditer_from r s i =
     (if length s < i then []
      else (case rmatch r s i of
              [] \<Rightarrow> finditer_from r s (Suc i)
            | (e, c) # rest \<Rightarrow>
                \<lparr>m_start = i, m_end = e, m_caps = c\<rparr> #
                finditer_from r s (if i < e then e else Suc i)))"
  by pat_completeness auto
termination
  by (relation "measure (\<lambda>(r, s, i). Suc (length s) - i)") auto

definition finditer :: "rx \<Rightarrow> string \<Rightarrow> rmatch_result list" where
  "finditer r s = finditer_from r s 0"

text \<open>\<open>re.fullmatch\<close>: some way of matching from the start ends at the end of the
  string. \<open>slice s a b\<close> is \<open>s[a:b]\<close>; \<open>group\<close> is \<open>m.group(name)\<close>, \<open>None\<close> for a
  group that took no part in the match.\<close>

definition fullmatch :: "rx \<Rightarrow> string \<Rightarrow> bool" where
  "fullmatch r s = (\<exists>x \<in> set (rmatch r s 0). fst x = length s)"

definition slice :: "string \<Rightarrow> nat \<Rightarrow> nat \<Rightarrow> string" where
  "slice s a b = take (b - a) (drop a s)"

definition group :: "string \<Rightarrow> rmatch_result \<Rightarrow> string \<Rightarrow> string option" where
  "group s m name =
     (case map_of (m_caps m) name of None \<Rightarrow> None | Some (a, b) \<Rightarrow> Some (slice s a b))"

section \<open>The reference tokenizer (core/references.py)\<close>

text \<open>The patterns \<open>_CELL\<close>, \<open>_RANGE\<close>, \<open>_WHOLE_COL\<close>, \<open>_WHOLE_ROW\<close>, \<open>_SHEET_PREFIX\<close>,
  \<open>_RE_SHEET_RANGE\<close>, \<open>_RE_BARE_RANGE\<close>, \<open>_RE_STRUCTURED\<close> and \<open>_RE_NAME\<close>.\<close>

definition dollar :: rx where
  "dollar = Opt (Cls ''$'')"

definition CELL :: rx where
  "CELL = Seq dollar (Seq (Rep 1 (Some 3) False upper_chars) (Seq dollar (Rep 1 (Some 7) False digit_chars)))"

definition RANGE :: rx where
  "RANGE = Seq CELL (Seq (Cls '':'') CELL)"

definition WHOLE_COL :: rx where
  "WHOLE_COL = Seq dollar (Seq (Rep 1 (Some 3) False upper_chars)
                 (Seq (Cls '':'') (Seq dollar (Rep 1 (Some 3) False upper_chars))))"

definition WHOLE_ROW :: rx where
  "WHOLE_ROW = Seq dollar (Seq (Rep 1 (Some 7) False digit_chars)
                 (Seq (Cls '':'') (Seq dollar (Rep 1 (Some 7) False digit_chars))))"

definition ADDR :: rx where
  "ADDR = Group ''addr'' (Alt RANGE (Alt CELL (Alt WHOLE_COL WHOLE_ROW)))"

definition SHEET_PREFIX :: rx where
  "SHEET_PREFIX =
     Seq (Alt (Seq (Cls [CHR 0x27]) (Seq (Group ''qs'' (Rep 1 None True [CHR 0x27])) (Cls [CHR 0x27])))
              (Group ''us'' (Rep 1 None True [CHR 0x27, CHR ''!''])))
         (Cls ''!'')"

definition RE_SHEET_RANGE :: rx where "RE_SHEET_RANGE = Seq SHEET_PREFIX ADDR"

definition RE_BARE_RANGE :: rx where "RE_BARE_RANGE = ADDR"

definition RE_STRUCTURED :: rx where
  "RE_STRUCTURED =
     Seq WordB (Seq (Group ''name''
        (Seq (Cls (upper_chars @ lower_chars @ ''_''))
          (Seq (Rep 0 None False word_chars)
            (Seq (Cls ''['') (Seq (Rep 1 None True '']'') (Cls '']'')))))) WordB)"

definition RE_NAME :: rx where
  "RE_NAME =
     Seq WordB (Seq (Group ''name''
        (Seq (Cls (upper_chars @ lower_chars @ ''_''))
             (Rep 0 (Some 255) False (word_chars @ ''.'')))) WordB)"

text \<open>\<open>str.upper\<close> on ASCII letters.\<close>

definition upper :: "string \<Rightarrow> string" where
  "upper s = map (\<lambda>c. case map_of (zip lower_chars upper_chars) c of Some u \<Rightarrow> u | None \<Rightarrow> c) s"

definition VOLATILE_FUNCS :: "string list" where
  "VOLATILE_FUNCS = [''NOW'', ''TODAY'', ''RAND'', ''RANDBETWEEN'',
                     ''OFFSET'', ''INDIRECT'', ''CELL'', ''INFO'']"

definition kind_from_addr :: "string \<Rightarrow> string" where
  "kind_from_addr addr =
     (if fullmatch CELL addr then ''cell''
      else if fullmatch RANGE addr then ''range''
      else if fullmatch WHOLE_COL addr then ''whole_column''
      else if fullmatch WHOLE_ROW addr then ''whole_row''
      else ''symbolic'')"

text \<open>The four passes of \<open>extract_reference_tokens\<close>, each over the whole formula:
  structured references, sheet-qualified addresses, bare addresses, names.\<close>

definition structured_tokens :: "string \<Rightarrow> RefToken list" where
  "structured_tokens f =
     map (\<lambda>m. \<lparr>raw = the (group f m ''name''), sheet = None, kind = ''symbolic'', symbolic = True\<rparr>)
       (finditer RE_STRUCTURED f)"

definition sheet_tokens :: "string \<Rightarrow> RefToken list" where
  "sheet_tokens f =
     map (\<lambda>m. let addr = the (group f m ''addr'')
              in \<lparr>raw = addr, sheet = str_or (group f m ''qs'') (group f m ''us''),
                  kind = kind_from_addr addr, symbolic = False\<rparr>)
       (finditer RE_SHEET_RANGE f)"

definition bare_tokens :: "string \<Rightarrow> RefToken list" where
  "bare_tokens f =
     map (\<lambda>m. let addr = the (group f m ''addr'')
              in \<lparr>raw = addr, sheet = None, kind = kind_from_addr addr, symbolic = False\<rparr>)
       (finditer RE_BARE_RANGE f)"

definition is_named_range :: "string \<Rightarrow> rmatch_result \<Rightarrow> bool" where
  "is_named_range f m =
     (let name = the (group f m ''name'');
          after = slice f (m_end m) (m_end m + 1)
      in \<not> (after = ''('') \<and>
         \<not> (fullmatch CELL name \<or> fullmatch WHOLE_COL name \<or> fullmatch WHOLE_ROW name) \<and>
         upper name \<notin> set [''TRUE'', ''FALSE'', ''NA'', ''N'', ''PI'', ''E''] \<and>
         upper name \<notin> set VOLATILE_FUNCS)"

definition name_tokens :: "string \<Rightarrow> RefToken list" where
  "name_tokens f =
     map (\<lambda>m. \<lparr>raw = the (group f m ''name''), sheet = None, kind = ''symbolic'', symbolic = True\<rparr>)
       (filter (is_named_range f) (finditer RE_NAME f))"

text \<open>The de-duplication loop: a token is dropped when an equal one was kept before it.\<close>

fun dedup :: "'a list \<Rightarrow> 'a list \<Rightarrow> 'a list" where
  "dedup seen [] = []"
| "dedup seen (t # ts) = (if t \<in> set seen then dedup seen ts else t # dedup (t # seen) ts)"

definition extract_reference_tokens :: "string \<Rightarrow> RefToken list" where
  "extract_reference_tokens formula =
     (if formula = [] then []
      else
        let f = (if hd formula = CHR ''='' then tl formula else formula)
        in dedup [] (structured_tokens f @ sheet_tokens f @ bare_tokens f @ name_tokens f))"

subsection \<open>Formulas of the claims\<close>

text \<open>
  Claim C3. The claim has \<open>extract_reference_tokens\<close> return exactly one token for
  \<open>=Sheet2!A1:B5\<close>, the range \<open>A1:B5\<close> of sheet \<open>Sheet2\<close>. The code returns three: that
  token, then the same range with no sheet (the pass for bare addresses runs over the
  whole formula, the part after \<open>Sheet2!\<close> included), then the symbolic name \<open>Sheet2\<close>
  (the pass for names takes the sheet name for a named range).
\<close>

theorem extract_reference_tokens_sheet_range:
  "extract_reference_tokens ''=Sheet2!A1:B5'' =
     [\<lparr>raw = ''A1:B5'', sheet = Some ''Sheet2'', kind = ''range'', symbolic = False\<rparr>,
      \<lparr>raw = ''A1:B5'', sheet = None, kind = ''range'', symbolic = False\<rparr>,
      \<lparr>raw = ''Sheet2'', sheet = None, kind = ''symbolic'', symbolic = True\<rparr>]"
  by code_simp

text \<open>The formulas of the chain and of the cycles give the tokens their graphs were built
  from.\<close>

lemma tokens_of_bare_cells:
  "map RefObj (extract_reference_tokens ''=A1'') = [cell_token ''A1'']"
  "map RefObj (extract_reference_tokens ''=B1'') = [cell_token ''B1'']"
  "map RefObj (extract_reference_tokens ''=C1'') = [cell_token ''C1'']"
  by code_simp+

section \<open>Hard-coded constants (detectors/constants.py)\<close>

text \<open>
  \<open>_NUM_RE\<close>, compiled with the flags \<open>x\<close> and \<open>i\<close> (so \<open>e\<close> also matches \<open>E\<close>). The
  value of a hit is the exact value of its literal, where the program has a float.
\<close>

definition NUM_RE :: rx where
  "NUM_RE =
     Group ''num''
       (Seq (Opt (Cls ''+-''))
         (Seq (Alt (Seq (Rep 1 None False digit_chars)
                        (Opt (Seq (Cls ''.'') (Rep 0 None False digit_chars))))
                   (Seq (Cls ''.'') (Rep 1 None False digit_chars)))
              (Opt (Seq (Cls ''eE'') (Seq (Opt (Cls ''+-'')) (Rep 1 None False digit_chars))))))"

record ConstantHit =
  literal :: string
  hit_value :: rat
  operator :: string
  function_name :: string
  hit_start :: nat
  hit_end :: nat

text \<open>\<open>_strip_quoted_segments\<close>, \<open>_looks_like_cell_ref_near\<close>, \<open>_nearest_operator\<close> (the
  operator to the left of the literal, past spaces, else the first character at or after
  the start of the literal, past spaces) and \<open>_enclosing_function\<close> (the walk to the left
  from the literal, on the characters in reverse).\<close>

fun blank_quoted :: "bool \<Rightarrow> string \<Rightarrow> string" where
  "blank_quoted in_q [] = []"
| "blank_quoted in_q (ch # rest) =
     (if ch = CHR 0x22 then ch # blank_quoted (\<not> in_q) rest
      else (if in_q then CHR '' '' else ch) # blank_quoted in_q rest)"

definition strip_quoted_segments :: "string \<Rightarrow> string" where
  "strip_quoted_segments s = (if CHR 0x22 \<notin> set s then s else blank_quoted False s)"

definition isalpha :: "char \<Rightarrow> bool" where
  "isalpha c = (c \<in> set (upper_chars @ lower_chars))"

definition looks_like_cell_ref_near :: "string \<Rightarrow> nat \<Rightarrow> nat \<Rightarrow> bool" where
  "looks_like_cell_ref_near s start stop =
     (let prev = (if 1 \<le> start then [s ! (start - 1)] else []);
          nxt = (if stop < length s then [s ! stop] else [])
      in if list_ex isalpha prev \<or> prev = ''$'' then True
         else if list_ex isalpha nxt \<or> nxt = ''$'' then True
         else False)"

definition is_operator :: "char \<Rightarrow> bool" where
  "is_operator c = (c \<in> set ''*/+-'')"

definition nearest_operator :: "string \<Rightarrow> nat \<Rightarrow> string" where
  "nearest_operator s start =
     (case dropWhile isspace (rev (take start s)) of
        c # lefts \<Rightarrow> if is_operator c then [c] else
          (case dropWhile isspace (drop start s) of
             d # rights \<Rightarrow> if is_operator d then [d] else []
           | [] \<Rightarrow> [])
      | [] \<Rightarrow>
          (case dropWhile isspace (drop start s) of
             d # rights \<Rightarrow> if is_operator d then [d] else []
           | [] \<Rightarrow> []))"

fun walk_left :: "string \<Rightarrow> nat \<Rightarrow> string" where
  "walk_left [] depth = []"
| "walk_left (ch # lefts) depth =
     (if ch = CHR '')'' then walk_left lefts (Suc depth)
      else if ch = CHR ''('' then
        (if depth = 0
         then upper (strip (rev (takeWhile (\<lambda>c. isalpha c \<or> c \<in> set ''._'') lefts)))
         else walk_left lefts (depth - 1))
      else walk_left lefts depth)"

definition enclosing_function :: "string \<Rightarrow> nat \<Rightarrow> string" where
  "enclosing_function formula pos = walk_left (rev (take (Suc pos) formula)) 0"

text \<open>
  The configuration: each list holds the \<open>str()\<close> of the configured items; a missing
  key, \<open>None\<close> and an empty list are all the empty list. The default configuration is
  the empty dictionary.
\<close>

record constants_cfg =
  ignore_literals :: "string list"
  ignore_functions :: "string list"
  risky_operators :: "string list"
  risky_functions :: "string list"

definition default_constants_cfg :: constants_cfg where
  "default_constants_cfg =
     \<lparr>ignore_literals = [], ignore_functions = [], risky_operators = [], risky_functions = []\<rparr>"

definition is_integer :: "rat \<Rightarrow> bool" where
  "is_integer r = (of_int \<lfloor>r\<rfloor> = r)"

definition lstrip_chars :: "char list \<Rightarrow> string \<Rightarrow> string" where
  "lstrip_chars cs s = dropWhile (\<lambda>c. c \<in> set cs) s"

text \<open>The body of the loop over the numeric literals: \<open>None\<close> where the loop goes on to
  the next literal without a hit. An empty \<open>risky_operators\<close> falls back to \<open>*\<close> and
  \<open>/\<close>.\<close>

definition constant_hit :: "constants_cfg \<Rightarrow> string \<Rightarrow> rmatch_result \<Rightarrow> ConstantHit option" where
  "constant_hit cfg s m =
     (let ignore_lits = set (ignore_literals cfg);
          ignore_funcs = set (map upper (ignore_functions cfg));
          risky_ops = (if risky_operators cfg = [] then {''*'', ''/''} else set (risky_operators cfg));
          risky_funcs = set (map upper (risky_functions cfg));
          lit = (case group s m ''num'' of None \<Rightarrow> [] | Some x \<Rightarrow> x);
          start = m_start m;
          stop = m_end m
      in if lit = [] then None
         else if looks_like_cell_ref_near s start stop then None
         else (case parse_float lit of
                 None \<Rightarrow> None
               | Some val \<Rightarrow>
                   if lit \<in> ignore_lits \<or> lstrip_chars ''+-'' lit \<in> ignore_lits then None
                   else if is_integer \<bar>val\<bar> \<and> str_of_int \<lfloor>\<bar>val\<bar>\<rfloor> \<in> ignore_lits then None
                   else
                     let op = nearest_operator s start;
                         func = enclosing_function s start
                     in if func \<noteq> [] \<and> func \<in> ignore_funcs then None
                        else if (op \<noteq> [] \<and> op \<in> risky_ops) \<or> (func \<noteq> [] \<and> func \<in> risky_funcs)
                        then Some \<lparr>literal = lit, hit_value = val, operator = op,
                                   function_name = func, hit_start = start, hit_end = stop\<rparr>
                        else None))"

definition detect_hardcoded_constants :: "string \<Rightarrow> constants_cfg \<Rightarrow> ConstantHit list" where
  "detect_hardcoded_constants formula cfg =
     (if formula = [] then []
      else let s = strip_quoted_segments formula
           in List.map_filter (constant_hit cfg s) (finditer NUM_RE s))"

text \<open>
  Claim C4. With the default configuration \<open>=A1*1.05\<close> gives exactly one hit, the literal
  \<open>1.05\<close> next to the operator \<open>*\<close>, and \<open>=A1+1\<close> gives none: the empty
  \<open>risky_operators\<close> stands for \<open>*\<close> and \<open>/\<close>, and the \<open>+\<close> of \<open>+1\<close> is not among
  them.
\<close>

theorem detect_hardcoded_constants_default:
  "detect_hardcoded_constants ''=A1*1.05'' default_constants_cfg =
     [\<lparr>literal = ''1.05'', hit_value = 21 / 20, operator = ''*'', function_name = [],
       hit_start = 4, hit_end = 8\<rparr>] \<and>
   detect_hardcoded_constants ''=A1+1'' default_constants_cfg = []"
  by code_simp

text \<open>When \<open>+\<close> is configured as risky, the literal of \<open>=A1+1\<close> is a hit.\<close>

lemma detect_hardcoded_constants_plus:
  "detect_hardcoded_constants ''=A1+1'' (default_constants_cfg\<lparr>risky_operators := [''+'']\<rparr>) =
     [\<lparr>literal = ''+1'', hit_value = 1, operator = ''+'', function_name = [],
       hit_start = 3, hit_end = 5\<rparr>]"
  by code_simp

section \<open>Formula drift (detectors/drift.py)\<close>

text \<open>\<open>pattern.sub(repl, s)\<close>, and the patterns \<open>_CELL_REF_RE\<close>, \<open>_NUM_RE\<close>, \<open>_WS_RE\<close> of
  drift.py with the pattern of a cell address.\<close>

fun sub_build :: "string \<Rightarrow> string \<Rightarrow> nat \<Rightarrow> rmatch_result list \<Rightarrow> string" where
  "sub_build repl s pos [] = drop pos s"
| "sub_build repl s pos (m # ms) = slice s pos (m_start m) @ repl @ sub_build repl s (m_end m) ms"

definition re_sub :: "rx \<Rightarrow> string \<Rightarrow> string \<Rightarrow> string" where
  "re_sub r repl s = sub_build repl s 0 (finditer r s)"

definition CELL_REF_RE :: rx where
  "CELL_REF_RE =
     Seq (Opt (Seq (Group ''sheet''
                      (Alt (Seq (Cls [CHR 0x27]) (Seq (Rep 1 None True [CHR 0x27]) (Cls [CHR 0x27])))
                           (Rep 1 None False word_chars)))
                   (Cls ''!'')))
       (Seq dollar (Seq (Rep 1 (Some 3) False upper_chars) (Seq dollar
         (Seq (Rep 1 None False digit_chars)
           (Opt (Seq (Cls '':'') (Seq dollar (Seq (Rep 1 (Some 3) False upper_chars)
                   (Seq dollar (Rep 1 None False digit_chars))))))))))"

definition DRIFT_NUM_RE :: rx where
  "DRIFT_NUM_RE =
     Seq (NotBehind (upper_chars @ lower_chars @ ''_''))
       (Seq (Opt (Cls ''-+''))
         (Seq (Rep 1 None False digit_chars)
           (Seq (Opt (Seq (Cls ''.'') (Rep 1 None False digit_chars)))
                (Opt (Seq (Cls ''eE'') (Seq (Opt (Cls ''-+'')) (Rep 1 None False digit_chars)))))))"

definition WS_RE :: rx where
  "WS_RE = Rep 1 None False whitespace"

definition ADDR_RE :: rx where
  "ADDR_RE = Seq Bol (Seq (Rep 1 (Some 3) False upper_chars)
               (Seq (Group ''1'' (Rep 1 None False digit_chars)) Eol))"

definition normalize_formula :: "string \<Rightarrow> string" where
  "normalize_formula formula =
     (let f = strip formula
      in if f = [] \<or> hd f \<noteq> CHR ''='' then []
         else upper (re_sub WS_RE [] (re_sub DRIFT_NUM_RE ''NUM'' (re_sub CELL_REF_RE ''CELL'' f))))"

text \<open>
  The configuration, every key optional; \<open>int(cfg.get(key, d) or d)\<close> takes the default
  also for 0. The ratio is a rational; \<open>0.60\<close> is \<open>3/5\<close>.
\<close>

record drift_cfg =
  enabled :: "bool option"
  min_row_formula_count :: "int option"
  dominant_ratio :: "rat option"
  max_findings :: "int option"

definition default_drift_cfg :: drift_cfg where
  "default_drift_cfg =
     \<lparr>enabled = None, min_row_formula_count = None, dominant_ratio = None, max_findings = None\<rparr>"

definition int_or :: "int option \<Rightarrow> int \<Rightarrow> int" where
  "int_or x dflt = (case x of None \<Rightarrow> dflt | Some n \<Rightarrow> if n = 0 then dflt else n)"

definition rat_or :: "rat option \<Rightarrow> rat \<Rightarrow> rat" where
  "rat_or x dflt = (case x of None \<Rightarrow> dflt | Some r \<Rightarrow> if r = 0 then dflt else r)"

record drift_finding =
  df_sheet :: string
  df_cell :: string
  df_formula :: string
  df_dominant_shape :: string
  df_cell_shape :: string
  df_row :: nat
  df_drift_scope :: string
  df_note :: string

text \<open>The rows of one sheet: for each row number, in the order the rows first appear, the
  cells \<open>(address, formula, shape)\<close> of that row.\<close>

type_synonym row_item = "string \<times> string \<times> string"

definition row_of_addr :: "string \<Rightarrow> nat option" where
  "row_of_addr addr =
     (case rmatch ADDR_RE addr 0 of
        [] \<Rightarrow> None
      | (e, c) # rest \<Rightarrow>
          (case map_of c ''1'' of None \<Rightarrow> None | Some (a, b) \<Rightarrow> Some (nat_of_digits (slice addr a b))))"

fun add_row :: "nat \<Rightarrow> row_item \<Rightarrow> (nat \<times> row_item list) list \<Rightarrow> (nat \<times> row_item list) list" where
  "add_row r it [] = [(r, [it])]"
| "add_row r it ((k, its) # rows) =
     (if k = r then (k, its @ [it]) # rows else (k, its) # add_row r it rows)"

definition add_cell :: "(nat \<times> row_item list) list \<Rightarrow> string \<times> string \<Rightarrow> (nat \<times> row_item list) list" where
  "add_cell rows cell =
     (case row_of_addr (fst cell) of
        None \<Rightarrow> rows
      | Some r \<Rightarrow>
          let shape = normalize_formula (snd cell)
          in if shape = [] then rows else add_row r (fst cell, snd cell, shape) rows)"

definition build_rows :: "(string \<times> string) list \<Rightarrow> (nat \<times> row_item list) list" where
  "build_rows fcells = foldl add_cell [] fcells"

text \<open>\<open>Counter(shapes)\<close> in insertion order, and \<open>most_common(1)[0]\<close>: the first shape of
  the highest count. A row has at least one cell, so the list of counts is not empty.\<close>

fun count_shape :: "string \<Rightarrow> (string \<times> nat) list \<Rightarrow> (string \<times> nat) list" where
  "count_shape x [] = [(x, 1)]"
| "count_shape x ((y, n) # counts) =
     (if y = x then (y, Suc n) # counts else (y, n) # count_shape x counts)"

definition counter :: "string list \<Rightarrow> (string \<times> nat) list" where
  "counter shapes = foldl (\<lambda>counts x. count_shape x counts) [] shapes"

definition most_common :: "(string \<times> nat) list \<Rightarrow> string \<times> nat" where
  "most_common counts =
     (case counts of
        [] \<Rightarrow> ([], 0)
      | c # cs \<Rightarrow> foldl (\<lambda>best x. if snd best < snd x then x else best) c cs)"

definition drift_note :: string where
  "drift_note = ''Formula shape differs from dominant pattern in the same row (possible copy/paste drift).''"

text \<open>The loops, innermost first. \<open>Inl\<close> is the early \<open>return findings\<close> at the cap,
  \<open>Inr\<close> the findings so far when the loop ends.\<close>

fun scan_items ::
  "string \<Rightarrow> nat \<Rightarrow> string \<Rightarrow> int \<Rightarrow> row_item list \<Rightarrow> drift_finding list
     \<Rightarrow> drift_finding list + drift_finding list" where
  "scan_items sh r dominant max_f [] findings = Inr findings"
| "scan_items sh r dominant max_f ((addr, formula, shape) # items) findings =
     (if shape = dominant then scan_items sh r dominant max_f items findings
      else
        let findings' = findings @
              [\<lparr>df_sheet = sh, df_cell = addr, df_formula = formula, df_dominant_shape = dominant,
                df_cell_shape = shape, df_row = r, df_drift_scope = ''row'', df_note = drift_note\<rparr>]
        in if max_f \<le> int (length findings') then Inl findings'
           else scan_items sh r dominant max_f items findings')"

definition scan_row ::
  "drift_cfg \<Rightarrow> string \<Rightarrow> nat \<times> row_item list \<Rightarrow> drift_finding list
     \<Rightarrow> drift_finding list + drift_finding list" where
  "scan_row cfg sh row findings =
     (let items = snd row;
          min_group = int_or (min_row_formula_count cfg) 6;
          ratio = rat_or (dominant_ratio cfg) (3 / 5);
          max_f = int_or (max_findings cfg) 50
      in if int (length items) < min_group then Inr findings
         else
           let dom = most_common (counter (map (\<lambda>it. snd (snd it)) items))
           in if of_nat (snd dom) / of_nat (max 1 (length items)) < ratio then Inr findings
              else scan_items sh (fst row) (fst dom) max_f items findings)"

fun scan_rows ::
  "drift_cfg \<Rightarrow> string \<Rightarrow> (nat \<times> row_item list) list \<Rightarrow> drift_finding list
     \<Rightarrow> drift_finding list + drift_finding list" where
  "scan_rows cfg sh [] findings = Inr findings"
| "scan_rows cfg sh (row # rows) findings =
     (case scan_row cfg sh row findings of
        Inl done \<Rightarrow> Inl done
      | Inr findings' \<Rightarrow> scan_rows cfg sh rows findings')"

fun scan_sheets ::
  "drift_cfg \<Rightarrow> (string \<times> (string \<times> string) list) list \<Rightarrow> drift_finding list
     \<Rightarrow> drift_finding list + drift_finding list" where
  "scan_sheets cfg [] findings = Inr findings"
| "scan_sheets cfg ((sh, fcells) # sheets) findings =
     (case scan_rows cfg sh (build_rows fcells) findings of
        Inl done \<Rightarrow> Inl done
      | Inr findings' \<Rightarrow> scan_sheets cfg sheets findings')"

definition detect_formula_drift ::
  "(string \<times> (string \<times> string) list) list \<Rightarrow> drift_cfg \<Rightarrow> drift_finding list" where
  "detect_formula_drift formula_cells_by_sheet cfg =
     (if \<not> (case enabled cfg of None \<Rightarrow> True | Some b \<Rightarrow> b) then []
      else (case scan_sheets cfg formula_cells_by_sheet [] of
              Inl findings \<Rightarrow> findings
            | Inr findings \<Rightarrow> findings))"

subsection \<open>Rows of six and of five cells\<close>

definition row_total :: "(nat \<times> row_item list) list \<Rightarrow> nat" where
  "row_total rows = sum_list (map (\<lambda>row. length (snd row)) rows)"

lemma row_total_add_row: "row_total (add_row r it rows) = Suc (row_total rows)"
  by (induction rows) (auto simp: row_total_def)

lemma row_total_add_cell: "row_total (add_cell rows cell) \<le> Suc (row_total rows)"
  by (simp add: add_cell_def row_total_add_row Let_def split: option.splits)

lemma row_total_foldl: "row_total (foldl add_cell rows fcells) \<le> row_total rows + length fcells"
proof (induction fcells arbitrary: rows)
  case Nil
  then show ?case by simp
next
  case (Cons c fcells)
  have "row_total (foldl add_cell (add_cell rows c) fcells) \<le> row_total (add_cell rows c) + length fcells"
    by (rule Cons.IH)
  also have "\<dots> \<le> Suc (row_total rows) + length fcells"
    using row_total_add_cell [of rows c] by simp
  finally show ?case by simp
qed

lemma row_length_le_total: "row \<in> set rows \<Longrightarrow> length (snd row) \<le> row_total rows"
  unfolding row_total_def by (induction rows) auto

lemma build_rows_lengths: "row \<in> set (build_rows fcells) \<Longrightarrow> length (snd row) \<le> length fcells"
  using row_length_le_total [of row "build_rows fcells"] row_total_foldl [of "[]" fcells]
  by (simp add: build_rows_def row_total_def)

lemma scan_row_small:
  "length (snd row) \<le> 5 \<Longrightarrow> scan_row default_drift_cfg sh row findings = Inr findings"
  by (simp add: scan_row_def default_drift_cfg_def int_or_def Let_def)

lemma scan_rows_small:
  "(\<And>row. row \<in> set rows \<Longrightarrow> length (snd row) \<le> 5) \<Longrightarrow>
   scan_rows default_drift_cfg sh rows findings = Inr findings"
  by (induction rows) (simp_all add: scan_row_small)

lemma scan_sheets_small:
  "list_all (\<lambda>sc. length (snd sc) \<le> 5) sheets \<Longrightarrow>
   scan_sheets default_drift_cfg sheets findings = Inr findings"
proof (induction sheets)
  case Nil
  then show ?case by simp
next
  case (Cons sc sheets)
  obtain sh fcells where sc: "sc = (sh, fcells)" by (cases sc)
  have "length fcells \<le> 5" using Cons.prems sc by simp
  then have "scan_rows default_drift_cfg sh (build_rows fcells) findings = Inr findings"
    by (intro scan_rows_small) (use build_rows_lengths in fastforce)
  then show ?case using Cons sc by simp
qed

lemma build_rows_six:
  assumes "row_of_addr a1 = Some r" "row_of_addr a2 = Some r" "row_of_addr a3 = Some r"
    "row_of_addr a4 = Some r" "row_of_addr a5 = Some r" "row_of_addr a6 = Some r"
    and "normalize_formula f1 = X" "normalize_formula f2 = X" "normalize_formula f3 = X"
    "normalize_formula f4 = X" "normalize_formula f5 = X" "normalize_formula f6 = Y"
    and "X \<noteq> []" "Y \<noteq> []"
  shows "build_rows [(a1, f1), (a2, f2), (a3, f3), (a4, f4), (a5, f5), (a6, f6)] =
     [(r, [(a1, f1, X), (a2, f2, X), (a3, f3, X), (a4, f4, X), (a5, f5, X), (a6, f6, Y)])]"
  using assms by (simp add: build_rows_def add_cell_def)

lemma scan_row_six:
  assumes "X \<noteq> Y"
  shows "scan_row default_drift_cfg sh
           (r, [(a1, f1, X), (a2, f2, X), (a3, f3, X), (a4, f4, X), (a5, f5, X), (a6, f6, Y)]) [] =
         Inr [\<lparr>df_sheet = sh, df_cell = a6, df_formula = f6, df_dominant_shape = X,
               df_cell_shape = Y, df_row = r, df_drift_scope = ''row'', df_note = drift_note\<rparr>]"
  using assms
  by (simp add: scan_row_def default_drift_cfg_def int_or_def rat_or_def counter_def
      most_common_def Let_def)

text \<open>
  Claim C7. With the default configuration: a sheet of six formula cells in one row,
  the first five of one shape and the sixth of another, gives exactly one finding, for
  the sixth cell; a row of five cells or fewer adds no finding whatever its shapes, and
  sheets of five cells or fewer give no finding.
\<close>

theorem detect_formula_drift_rows:
  "(row_of_addr a1 = Some r \<and> row_of_addr a2 = Some r \<and> row_of_addr a3 = Some r \<and>
    row_of_addr a4 = Some r \<and> row_of_addr a5 = Some r \<and> row_of_addr a6 = Some r \<and>
    normalize_formula f1 = X \<and> normalize_formula f2 = X \<and> normalize_formula f3 = X \<and>
    normalize_formula f4 = X \<and> normalize_formula f5 = X \<and> normalize_formula f6 = Y \<and>
    X \<noteq> [] \<and> Y \<noteq> [] \<and> X \<noteq> Y \<longrightarrow>
    detect_formula_drift [(sh, [(a1, f1), (a2, f2), (a3, f3), (a4, f4), (a5, f5), (a6, f6)])]
        default_drift_cfg =
      [\<lparr>df_sheet = sh, df_cell = a6, df_formula = f6, df_dominant_shape = X,
        df_cell_shape = Y, df_row = r, df_drift_scope = ''row'', df_note = drift_note\<rparr>]) \<and>
   (length items \<le> 5 \<longrightarrow> scan_row default_drift_cfg sh' (r', items) findings = Inr findings) \<and>
   (list_all (\<lambda>sc. length (snd sc) \<le> 5) sheets \<longrightarrow>
    detect_formula_drift sheets default_drift_cfg = [])"
proof (intro conjI impI)
  assume a: "row_of_addr a1 = Some r \<and> row_of_addr a2 = Some r \<and> row_of_addr a3 = Some r \<and>
    row_of_addr a4 = Some r \<and> row_of_addr a5 = Some r \<and> row_of_addr a6 = Some r \<and>
    normalize_formula f1 = X \<and> normalize_formula f2 = X \<and> normalize_formula f3 = X \<and>
    normalize_formula f4 = X \<and> normalize_formula f5 = X \<and> normalize_formula f6 = Y \<and>
    X \<noteq> [] \<and> Y \<noteq> [] \<and> X \<noteq> Y"
  then have rows: "build_rows [(a1, f1), (a2, f2), (a3, f3), (a4, f4), (a5, f5), (a6, f6)] =
     [(r, [(a1, f1, X), (a2, f2, X), (a3, f3, X), (a4, f4, X), (a5, f5, X), (a6, f6, Y)])]"
    by (intro build_rows_six) simp_all
  from a have "X \<noteq> Y" by simp
  note row = scan_row_six [OF this, of sh r a1 f1 a2 f2 a3 f3 a4 f4 a5 f5 a6 f6]
  show "detect_formula_drift [(sh, [(a1, f1), (a2, f2), (a3, f3), (a4, f4), (a5, f5), (a6, f6)])]
        default_drift_cfg =
      [\<lparr>df_sheet = sh, df_cell = a6, df_formula = f6, df_dominant_shape = X,
        df_cell_shape = Y, df_row = r, df_drift_scope = ''row'', df_note = drift_note\<rparr>]"
    by (simp add: detect_formula_drift_def rows row) (simp add: default_drift_cfg_def)
next
  assume "length items \<le> 5"
  then show "scan_row default_drift_cfg sh' (r', items) findings = Inr findings"
    by (simp add: scan_row_small)
next
  assume "list_all (\<lambda>sc. length (snd sc) \<le> 5) sheets"
  then show "detect_formula_drift sheets default_drift_cfg = []"
    by (simp add: detect_formula_drift_def scan_sheets_small)
qed

text \<open>Two small sheets: five sums and a product in row 3, and five formulas of five
  different shapes in row 3.\<close>

definition six_cell_sheet :: "(string \<times> (string \<times> string) list) list" where
  "six_cell_sheet =
     [(''Sheet1'', [(''A3'', ''=A1+A2''), (''B3'', ''=B1+B2''), (''C3'', ''=C1+C2''),
                    (''D3'', ''=D1+D2''), (''E3'', ''=E1+E2''), (''F3'', ''=F1*2'')])]"

definition five_cell_sheet :: "(string \<times> (string \<times> string) list) list" where
  "five_cell_sheet =
     [(''Sheet1'', [(''A3'', ''=A1+A2''), (''B3'', ''=B1-B2''), (''C3'', ''=C1*C2''),
                    (''D3'', ''=D1/D2''), (''E3'', ''=SUM(E1:E2)'')])]"

lemma shapes_of_six:
  "normalize_formula ''=A1+A2'' = ''=CELL+CELL''" "normalize_formula ''=B1+B2'' = ''=CELL+CELL''"
  "normalize_formula ''=C1+C2'' = ''=CELL+CELL''" "normalize_formula ''=D1+D2'' = ''=CELL+CELL''"
  "normalize_formula ''=E1+E2'' = ''=CELL+CELL''" "normalize_formula ''=F1*2'' = ''=CELL*NUM''"
  by code_simp+

lemma rows_of_six:
  "row_of_addr ''A3'' = Some 3" "row_of_addr ''B3'' = Some 3" "row_of_addr ''C3'' = Some 3"
  "row_of_addr ''D3'' = Some 3" "row_of_addr ''E3'' = Some 3" "row_of_addr ''F3'' = Some 3"
  by code_simp+

theorem detect_formula_drift_rows_witness:
  "detect_formula_drift six_cell_sheet default_drift_cfg =
     [\<lparr>df_sheet = ''Sheet1'', df_cell = ''F3'', df_formula = ''=F1*2'',
       df_dominant_shape = ''=CELL+CELL'', df_cell_shape = ''=CELL*NUM'', df_row = 3,
       df_drift_scope = ''row'', df_note = drift_note\<rparr>] \<and>
   scan_row default_drift_cfg ''Sheet1''
     (3, [(''A3'', ''=A1+A2'', ''=CELL+CELL''), (''B3'', ''=B1-B2'', ''=CELL-CELL'')]) [] = Inr [] \<and>
   detect_formula_drift five_cell_sheet default_drift_cfg = []"
  using detect_formula_drift_rows [of "''A3''" 3 "''B3''" "''C3''" "''D3''" "''E3''" "''F3''"
      "''=A1+A2''" "''=CELL+CELL''" "''=B1+B2''" "''=C1+C2''" "''=D1+D2''" "''=E1+E2''" "''=F1*2''"
      "''=CELL*NUM''" "''Sheet1''"
      "[(''A3'', ''=A1+A2'', ''=CELL+CELL''), (''B3'', ''=B1-B2'', ''=CELL-CELL'')]" "''Sheet1''" 3 "[]"
      five_cell_sheet]
  by (simp add: shapes_of_six rows_of_six six_cell_sheet_def five_cell_sheet_def)

end
